theory Spec2Isabelle
  imports Main "HOL-Library.Sublist" "HOL-Library.Log_Nat"
begin

section \<open>The AI quiz backend: provider adapter, extraction and reconciliation\<close>

text \<open>
  The development follows the service module (retry helper, JSON extraction, the
  \<open>AIService\<close> class) and the quiz routes (\<open>POST /quiz/generate\<close>,
  \<open>POST /quiz/submit\<close>). JavaScript strings are modelled as \<open>string\<close>, that is as
  lists of code units below 256; exceptions are values of the type \<open>error\<close>, and a
  function that may throw returns \<open>error + 'a\<close> with \<open>Inl\<close> for the thrown value.
\<close>

subsection \<open>Errors\<close>

datatype error =
    SyntaxError                  \<comment> \<open>thrown by \<open>JSON.parse\<close>\<close>
  | TypeError                    \<comment> \<open>property access on \<open>null\<close> or \<open>undefined\<close>\<close>
  | NotValidJSON                 \<comment> \<open>\<open>Error("AI did not return valid JSON")\<close>\<close>
  | NoQuestions                  \<comment> \<open>\<open>Error("No quiz questions generated")\<close>\<close>
  | InvalidProvider              \<comment> \<open>\<open>Error('Invalid AI_PROVIDER. Use "groq", "openai", or "gemini".')\<close>\<close>
  | InvalidProviderConfigured    \<comment> \<open>\<open>Error("Invalid AI provider configured.")\<close>, thrown inside \<open>askAI\<close>\<close>
  | Backend string               \<comment> \<open>whatever the provider's client library throws\<close>

subsection \<open>JavaScript numbers\<close>

text \<open>
  A JavaScript number is an IEEE 754 double: \<open>NaN\<close>, one of the two infinities, negative
  zero, or \<open>Fin q\<close> for a rational \<open>q\<close> that a double represents (\<open>Fin 0\<close> is positive
  zero). The result of an arithmetic operation is the exact result rounded to the
  nearest double, ties to the even significand, with gradual underflow below
  \<open>2\<^sup>-\<^sup>1\<^sup>0\<^sup>2\<^sup>2\<close> and overflow to an infinity from \<open>2\<^sup>1\<^sup>0\<^sup>2\<^sup>4 - 2\<^sup>9\<^sup>7\<^sup>0\<close> on.
\<close>

datatype jsnum = NaN | PInf | NInf | NZero | Fin rat

definition pow2 :: "int \<Rightarrow> rat" where
  "pow2 e = (if 0 \<le> e then of_int (2 ^ nat e) else 1 / of_int (2 ^ nat (- e)))"

text \<open>\<open>ilog2 m\<close> is the binary exponent \<open>\<lfloor>log\<^sub>2 m\<rfloor>\<close> of a positive rational.\<close>

definition ilog2 :: "rat \<Rightarrow> int" where
  "ilog2 m = (let (p, q) = quotient_of m; d = bitlen p - bitlen q
              in if pow2 d \<le> m then d else d - 1)"

definition round_half_even :: "rat \<Rightarrow> int" where
  "round_half_even q =
     (let f = \<lfloor>q\<rfloor>; d = q - of_int f
      in if d < 1 / 2 then f else if 1 / 2 < d then f + 1
         else if even f then f else f + 1)"

definition signed_inf :: "bool \<Rightarrow> jsnum" where
  "signed_inf neg = (if neg then NInf else PInf)"

definition signed_zero :: "bool \<Rightarrow> jsnum" where
  "signed_zero neg = (if neg then NZero else Fin 0)"

text \<open>
  \<open>round_signed neg m\<close> is the double nearest to the magnitude \<open>m \<ge> 0\<close>, with the sign
  \<open>neg\<close>: the significand has 53 bits, so the spacing of doubles around \<open>m\<close> is
  \<open>2\<^sup>e\<^sup>-\<^sup>5\<^sup>2\<close> for the exponent \<open>e\<close> of \<open>m\<close>, which is not taken below \<open>-1022\<close>.
\<close>

definition round_signed :: "bool \<Rightarrow> rat \<Rightarrow> jsnum" where
  "round_signed neg m =
     (if m = 0 then signed_zero neg
      else let e = max (ilog2 m) (- 1022);
               ulp = pow2 (e - 52);
               n = round_half_even (m / ulp)
           in if 1024 \<le> e \<or> (e = 1023 \<and> n = 2 ^ 53) then signed_inf neg
              else if n = 0 then signed_zero neg
              else Fin ((if neg then - 1 else 1) * of_int n * ulp))"

fun is_neg :: "jsnum \<Rightarrow> bool" where
  "is_neg NInf = True"
| "is_neg NZero = True"
| "is_neg (Fin q) = (q < 0)"
| "is_neg _ = False"

fun is_inf :: "jsnum \<Rightarrow> bool" where
  "is_inf PInf = True"
| "is_inf NInf = True"
| "is_inf _ = False"

fun magnitude :: "jsnum \<Rightarrow> rat" where
  "magnitude (Fin q) = \<bar>q\<bar>"
| "magnitude _ = 0"

text \<open>The operators \<open>/\<close> and \<open>*\<close> on numbers.\<close>

definition js_div :: "jsnum \<Rightarrow> jsnum \<Rightarrow> jsnum" where
  "js_div x y =
     (let neg = (is_neg x \<noteq> is_neg y)
      in if x = NaN \<or> y = NaN then NaN
         else if is_inf x then (if is_inf y then NaN else signed_inf neg)
         else if is_inf y then signed_zero neg
         else if magnitude y = 0 then (if magnitude x = 0 then NaN else signed_inf neg)
         else round_signed neg (magnitude x / magnitude y))"

definition js_mul :: "jsnum \<Rightarrow> jsnum \<Rightarrow> jsnum" where
  "js_mul x y =
     (let neg = (is_neg x \<noteq> is_neg y)
      in if x = NaN \<or> y = NaN then NaN
         else if is_inf x then (if \<not> is_inf y \<and> magnitude y = 0 then NaN else signed_inf neg)
         else if is_inf y then (if magnitude x = 0 then NaN else signed_inf neg)
         else round_signed neg (magnitude x * magnitude y))"


subsection \<open>JavaScript values\<close>

text \<open>
  The values that \<open>JSON.parse\<close> and property access produce. An object is the list of
  its own properties in insertion order; \<open>JSON.parse\<close> yields each key once.
\<close>

datatype jsval =
    JUndefined
  | JNull
  | JBool bool
  | JNum jsnum
  | JStr string
  | JArr "jsval list"
  | JObj "(string \<times> jsval) list"

fun truthy :: "jsval \<Rightarrow> bool" where
  "truthy JUndefined = False"
| "truthy JNull = False"
| "truthy (JBool b) = b"
| "truthy (JNum n) = (n \<noteq> NaN \<and> n \<noteq> NZero \<and> n \<noteq> Fin 0)"
| "truthy (JStr s) = (s \<noteq> [])"
| "truthy (JArr xs) = True"
| "truthy (JObj kvs) = True"

text \<open>\<open>a || b\<close> and \<open>a ?? b\<close>.\<close>

definition js_or :: "jsval \<Rightarrow> jsval \<Rightarrow> jsval" where
  "js_or a b = (if truthy a then a else b)"

definition nullish :: "jsval \<Rightarrow> bool" where
  "nullish a = (a = JUndefined \<or> a = JNull)"

definition js_coalesce :: "jsval \<Rightarrow> jsval \<Rightarrow> jsval" where
  "js_coalesce a b = (if nullish a then b else a)"

text \<open>
  \<open>v.k\<close> for the property names the code reads (\<open>questionId\<close>, \<open>answer\<close>, \<open>score\<close>,
  \<open>maxScore\<close>, \<open>evaluations\<close>, \<open>improvements\<close>, \<open>userAnswer\<close>, \<open>isCorrect\<close>,
  \<open>questions\<close>, \<open>questionText\<close>, \<open>correctAnswer\<close>, \<open>difficulty\<close>, \<open>options\<close>): none
  of them is a property of a built-in prototype, so the access finds an own property
  of an object or nothing. On \<open>null\<close> and \<open>undefined\<close> it throws.
\<close>

fun js_get :: "jsval \<Rightarrow> string \<Rightarrow> error + jsval" where
  "js_get JUndefined k = Inl TypeError"
| "js_get JNull k = Inl TypeError"
| "js_get (JObj kvs) k = Inr (case map_of kvs k of Some v \<Rightarrow> v | None \<Rightarrow> JUndefined)"
| "js_get v k = Inr JUndefined"

text \<open>\<open>v?.k\<close>\<close>

definition js_get_opt :: "jsval \<Rightarrow> string \<Rightarrow> jsval" where
  "js_get_opt v k = (case js_get v k of Inl e \<Rightarrow> JUndefined | Inr x \<Rightarrow> x)"

text \<open>The decimal numeral of an array index, which is the property key it stands for.\<close>

definition digit :: "nat \<Rightarrow> char" where
  "digit d = char_of (48 + d)"

function decimal :: "nat \<Rightarrow> string" where
  "decimal n = (if n < 10 then [digit n] else decimal (n div 10) @ [digit (n mod 10)])"
  by pat_completeness auto
termination
  by (relation "measure id") auto

declare decimal.simps [simp del]

text \<open>
  \<open>v[i]\<close> for an index \<open>i\<close>: an element of an array, a character of a string, the
  property with the numeral as key of an object, nothing on a number or a boolean.
\<close>

fun js_index :: "jsval \<Rightarrow> nat \<Rightarrow> error + jsval" where
  "js_index JUndefined i = Inl TypeError"
| "js_index JNull i = Inl TypeError"
| "js_index (JArr xs) i = Inr (if i < length xs then xs ! i else JUndefined)"
| "js_index (JStr s) i = Inr (if i < length s then JStr [s ! i] else JUndefined)"
| "js_index (JObj kvs) i =
     Inr (case map_of kvs (decimal i) of Some v \<Rightarrow> v | None \<Rightarrow> JUndefined)"
| "js_index v i = Inr JUndefined"

text \<open>
  \<open>v.length\<close> of a truthy value: the length of a string or an array, the own property
  of an object, nothing on a number or a boolean.
\<close>

fun js_length :: "jsval \<Rightarrow> jsval" where
  "js_length (JStr s) = JNum (Fin (of_nat (length s)))"
| "js_length (JArr xs) = JNum (Fin (of_nat (length xs)))"
| "js_length (JObj kvs) = (case map_of kvs ''length'' of Some v \<Rightarrow> v | None \<Rightarrow> JUndefined)"
| "js_length v = JUndefined"

text \<open>\<open>v === 0\<close>\<close>

definition is_zero :: "jsval \<Rightarrow> bool" where
  "is_zero v = (v = JNum (Fin 0) \<or> v = JNum NZero)"

text \<open>
  \<open>ToNumber\<close>. The conversion of a string, an array or an object to a number goes through
  the language's numeric-literal grammar and \<open>toString\<close>; it is the parameter \<open>coerce\<close>
  here (it may throw), so that what is proved holds whatever those conversions give.
\<close>

type_synonym coercion = "jsval \<Rightarrow> error + jsnum"

fun ToNumber :: "coercion \<Rightarrow> jsval \<Rightarrow> error + jsnum" where
  "ToNumber coerce JUndefined = Inr NaN"
| "ToNumber coerce JNull = Inr (Fin 0)"
| "ToNumber coerce (JBool b) = Inr (Fin (if b then 1 else 0))"
| "ToNumber coerce (JNum n) = Inr n"
| "ToNumber coerce v = coerce v"

text \<open>A \<open>map\<close> over an array whose callback may throw: the first exception ends it.\<close>

fun map_throwing :: "('a \<Rightarrow> error + 'b) \<Rightarrow> 'a list \<Rightarrow> error + 'b list" where
  "map_throwing f [] = Inr []"
| "map_throwing f (x # xs) =
     (case f x of
        Inl e \<Rightarrow> Inl e
      | Inr y \<Rightarrow> (case map_throwing f xs of Inl e \<Rightarrow> Inl e | Inr ys \<Rightarrow> Inr (y # ys)))"

subsection \<open>The retry helper\<close>

text \<open>
  \<open>withRetry(fn, retries = 3, delay = 700)\<close> awaits \<open>fn()\<close>; on an exception it rethrows
  when \<open>retries <= 0\<close>, and otherwise sleeps \<open>delay\<close> milliseconds and calls itself with
  \<open>retries - 1\<close> and \<open>delay * 2\<close>.

  The operation \<open>fn\<close> is effectful, so successive calls may end differently: \<open>fn k\<close> is
  the outcome of the call made when \<open>k\<close> calls have been made before. The state that is
  passed along is the number of calls made so far and the list of sleeps taken so far
  (in milliseconds, oldest first). The retry count and the delay are integers, as
  they are in every call that the service makes; doubling is exact on them.
\<close>

type_synonym retry_state = "nat \<times> int list"

function withRetry ::
  "(nat \<Rightarrow> 'e + 'a) \<Rightarrow> int \<Rightarrow> int \<Rightarrow> retry_state \<Rightarrow> ('e + 'a) \<times> retry_state" where
  "withRetry fn retries delay (calls, sleeps) =
     (case fn calls of
        Inr v \<Rightarrow> (Inr v, (Suc calls, sleeps))
      | Inl err \<Rightarrow>
          if retries \<le> 0 then (Inl err, (Suc calls, sleeps))
          else withRetry fn (retries - 1) (delay * 2) (Suc calls, sleeps @ [delay]))"
  by pat_completeness auto
termination
  by (relation "measure (\<lambda>(fn, retries, delay, st). nat retries)") auto

declare withRetry.simps [simp del]

text \<open>The call with the default parameters, from a fresh state.\<close>

definition withRetry_default :: "(nat \<Rightarrow> 'e + 'a) \<Rightarrow> ('e + 'a) \<times> retry_state" where
  "withRetry_default fn = withRetry fn 3 700 (0, [])"

subsection \<open>Extraction of JSON from the backend's text\<close>

text \<open>
  \<open>JSON.parse\<close> is the language's: it is the parameter \<open>parse\<close>, with \<open>None\<close> for
  a \<open>SyntaxError\<close>. The two regular expressions are matched as follows.

  \<open>is_space\<close> is the class \<open>\s\<close> on code units below 256. \<open>until_fence t\<close> is the
  lazy group \<open>([\s\S]*?)\<close> followed by the closing fence: the shortest prefix of \<open>t\<close>
  after which three backquotes stand. \<open>match_json_fence\<close> is
  \<open>text.match(/```json\s*([\s\S]*?)```/)\<close>, and \<open>match_fence\<close> is
  \<open>text.match(/```([\s\S]*?)```/)\<close>; both give the group of the leftmost match.
  The greedy \<open>\s*\<close> takes all the white space after the tag; giving some of it back
  could not make a closing fence appear, so that no shorter run is tried.
\<close>

definition is_space :: "char \<Rightarrow> bool" where
  "is_space c = (c \<in> set [CHR 0x09, CHR 0x0A, CHR 0x0B, CHR 0x0C, CHR 0x0D, CHR 0x20, CHR 0xA0])"

fun until_fence :: "string \<Rightarrow> string option" where
  "until_fence [] = None"
| "until_fence (c # cs) =
     (if prefix ''```'' (c # cs) then Some []
      else map_option (\<lambda>cap. c # cap) (until_fence cs))"

fun match_json_fence :: "string \<Rightarrow> string option" where
  "match_json_fence [] = None"
| "match_json_fence (c # cs) =
     (if prefix ''```json'' (c # cs) then
        (case until_fence (dropWhile is_space (drop 7 (c # cs))) of
           Some cap \<Rightarrow> Some cap
         | None \<Rightarrow> match_json_fence cs)
      else match_json_fence cs)"

fun match_fence :: "string \<Rightarrow> string option" where
  "match_fence [] = None"
| "match_fence (c # cs) =
     (if prefix ''```'' (c # cs) then
        (case until_fence (drop 3 (c # cs)) of
           Some cap \<Rightarrow> Some cap
         | None \<Rightarrow> match_fence cs)
      else match_fence cs)"

definition extractJSON :: "(string \<Rightarrow> jsval option) \<Rightarrow> string \<Rightarrow> error + jsval" where
  "extractJSON parse text =
     (case parse text of
        Some v \<Rightarrow> Inr v
      | None \<Rightarrow>
          (case match_json_fence text of
             Some cap \<Rightarrow> (case parse cap of Some v \<Rightarrow> Inr v | None \<Rightarrow> Inl SyntaxError)
           | None \<Rightarrow>
               (case match_fence text of
                  Some cap \<Rightarrow> (case parse cap of Some v \<Rightarrow> Inr v | None \<Rightarrow> Inl SyntaxError)
                | None \<Rightarrow> Inl NotValidJSON)))"

subsection \<open>The service: construction\<close>

text \<open>
  The environment variables that the constructor reads; an unset variable is \<open>None\<close>.
  \<open>process.env.X || d\<close> is \<open>d\<close> for an unset and for an empty variable.
\<close>

record env =
  AI_PROVIDER :: "string option"
  GROQ_API_KEY :: "string option"
  OPENAI_API_KEY :: "string option"
  OPENAI_MODEL :: "string option"
  GEMINI_API_KEY :: "string option"
  GEMINI_MODEL :: "string option"

definition env_or :: "string option \<Rightarrow> string \<Rightarrow> string" where
  "env_or x d = (case x of None \<Rightarrow> d | Some s \<Rightarrow> if s = [] then d else s)"

text \<open>
  \<open>toLowerCase\<close> on code units below 256: the letters A to Z and the capital letters
  of Latin-1 have their lower-case form 32 code units further.
\<close>

definition lower_char :: "char \<Rightarrow> char" where
  "lower_char c =
     (let n = of_char c :: nat
      in if (65 \<le> n \<and> n \<le> 90) \<or> (192 \<le> n \<and> n \<le> 222 \<and> n \<noteq> 215)
         then char_of (n + 32) else c)"

definition toLowerCase :: "string \<Rightarrow> string" where
  "toLowerCase s = map lower_char s"

text \<open>
  The service object: the provider name, the client of the provider's library and the
  model name. The constructors of the three client libraries are the parameter
  \<open>newClient\<close>, which gets the name of the library and the API key and may throw.
  The constructor also logs which provider is in use.
\<close>

record 'c service =
  provider :: string
  client :: 'c
  model :: string

definition AIService ::
  "(string \<Rightarrow> string option \<Rightarrow> error + 'c) \<Rightarrow> env \<Rightarrow> error + 'c service" where
  "AIService newClient e =
     (let p = toLowerCase (env_or (AI_PROVIDER e) ''groq'')
      in if p = ''groq'' then
           (case newClient ''groq'' (GROQ_API_KEY e) of
              Inl err \<Rightarrow> Inl err
            | Inr c \<Rightarrow> Inr \<lparr> provider = p, client = c, model = ''llama-3.1-70b-versatile'' \<rparr>)
         else if p = ''openai'' then
           (case newClient ''openai'' (OPENAI_API_KEY e) of
              Inl err \<Rightarrow> Inl err
            | Inr c \<Rightarrow>
                Inr \<lparr> provider = p, client = c, model = env_or (OPENAI_MODEL e) ''gpt-4o-mini'' \<rparr>)
         else if p = ''gemini'' then
           (case newClient ''gemini'' (GEMINI_API_KEY e) of
              Inl err \<Rightarrow> Inl err
            | Inr c \<Rightarrow>
                Inr \<lparr> provider = p, client = c, model = env_or (GEMINI_MODEL e) ''gemini-pro'' \<rparr>)
         else Inl InvalidProvider)"

text \<open>
  The module ends with \<open>export default new AIService()\<close>, and the server module imports
  the routes, which import the service, before it calls \<open>app.listen\<close>: the process
  either fails while it loads its modules or listens with the one service object that
  every request then uses.
\<close>

datatype 'c process = Crashed error | Listening "'c service"

definition start :: "(string \<Rightarrow> string option \<Rightarrow> error + 'c) \<Rightarrow> env \<Rightarrow> 'c process" where
  "start newClient e =
     (case AIService newClient e of Inl err \<Rightarrow> Crashed err | Inr svc \<Rightarrow> Listening svc)"

subsection \<open>The service: the call of the backend\<close>

text \<open>
  What \<open>askAI\<close> sends: \<open>chat.completions.create\<close> with the model, the system and the
  user message and \<open>response_format\<close> (\<open>{ type: "json_object" }\<close> or \<open>undefined\<close>), or
  \<open>generateContent\<close> of the model with one text part. The temperature (0.6) and the
  output limit of the second (1800 tokens) are constants and are left out.
\<close>

datatype response_format = Json_object

datatype request =
    ChatCompletionsCreate string string string "response_format option"
  | GenerateContent string string

text \<open>
  The backend is the parameter \<open>backend\<close>: \<open>backend c r k\<close> is how the call of the
  client \<open>c\<close> with the request \<open>r\<close> ends when it is the \<open>k\<close>-th call, either with the
  text of the response or with whatever the library or the reading of the response
  throws. \<open>askAI\<close> runs the call under the retry helper with its default parameters.
\<close>

type_synonym 'c backend = "'c \<Rightarrow> request \<Rightarrow> nat \<Rightarrow> error + string"

definition askAI_attempt ::
  "'c backend \<Rightarrow> 'c service \<Rightarrow> string \<Rightarrow> string \<Rightarrow> bool \<Rightarrow> nat \<Rightarrow> error + string" where
  "askAI_attempt backend svc system user wantsJSON k =
     (if provider svc = ''groq'' \<or> provider svc = ''openai'' then
        backend (client svc)
          (ChatCompletionsCreate (model svc) system user
             (if wantsJSON then Some Json_object else None)) k
      else if provider svc = ''gemini'' then
        backend (client svc)
          (GenerateContent (model svc)
             (system @ ''\<newline>\<newline>'' @ user @
              (if wantsJSON then ''\<newline>Return strictly valid JSON only.'' else ''''))) k
      else Inl InvalidProviderConfigured)"

definition askAI ::
  "'c backend \<Rightarrow> 'c service \<Rightarrow> string \<Rightarrow> string \<Rightarrow> bool \<Rightarrow> error + string" where
  "askAI backend svc system user wantsJSON =
     fst (withRetry_default (askAI_attempt backend svc system user wantsJSON))"

subsection \<open>The service: quiz generation\<close>

text \<open>
  The prompts of \<open>generateQuiz\<close>; the question count, the grade and the subject enter
  the template as text. \<open>JSON.stringify\<close> is the parameter \<open>stringify\<close>. The function
  has a \<open>difficulty\<close> argument as well, which it does not use.
\<close>

definition quiz_system_prompt :: "string \<Rightarrow> string \<Rightarrow> string \<Rightarrow> string" where
  "quiz_system_prompt numQuestions grade subject =
     ''\<newline>You are an expert quiz generator. \<newline>Generate exactly '' @ numQuestions @
     '' MCQs for Grade '' @ grade @ '' '' @ subject @
     ''.\<newline>\<newline>Rules:\<newline>- 4 options (A, B, C, D)\<newline>- Include \"correctAnswer\"\<newline>'' @
     ''- Include \"difficulty\": \"easy\" | \"medium\" | \"hard\"\<newline>'' @
     ''- MUST RETURN STRICT JSON ONLY.\<newline>\<newline>Example:\<newline>{\<newline>  \"questions\": [\<newline>    {\<newline>'' @
     ''      \"questionText\": \"\",\<newline>      \"options\": [\"A\", \"B\", \"C\", \"D\"],\<newline>'' @
     ''      \"correctAnswer\": \"A\",\<newline>      \"difficulty\": \"easy\"\<newline>    }\<newline>  ]\<newline>}''"

definition quiz_user_prompt :: "(jsval \<Rightarrow> string) \<Rightarrow> jsval list \<Rightarrow> string" where
  "quiz_user_prompt stringify history =
     (if length history > 0 then
        ''User's past performance: '' @ stringify (JArr history) @
        ''.\<newline>Adapt difficulty.\<newline>Return ONLY JSON.''
      else ''Generate high-quality questions.\<newline>Return ONLY JSON.'')"

text \<open>The last lines of \<open>generateQuiz\<close>: the check of the parsed response.\<close>

definition parsed_questions :: "jsval \<Rightarrow> error + jsval" where
  "parsed_questions parsed =
     (case js_get parsed ''questions'' of
        Inl e \<Rightarrow> Inl e
      | Inr qs \<Rightarrow>
          if \<not> truthy qs \<or> is_zero (js_length qs) then Inl NoQuestions else Inr qs)"

definition generateQuiz ::
  "'c backend \<Rightarrow> (string \<Rightarrow> jsval option) \<Rightarrow> (jsval \<Rightarrow> string) \<Rightarrow> 'c service
     \<Rightarrow> string \<Rightarrow> string \<Rightarrow> string \<Rightarrow> jsval list \<Rightarrow> error + jsval" where
  "generateQuiz backend parse stringify svc grade subject numQuestions history =
     (case askAI backend svc (quiz_system_prompt numQuestions grade subject)
             (quiz_user_prompt stringify history) True of
        Inl e \<Rightarrow> Inl e
      | Inr raw \<Rightarrow>
          (case extractJSON parse raw of
             Inl e \<Rightarrow> Inl e
           | Inr parsed \<Rightarrow> parsed_questions parsed))"

subsection \<open>The rows of a quiz\<close>

text \<open>
  The rows that \<open>POST /quiz/submit\<close> reads: a question with its identifier, text, known
  correct answer and number, and the quiz with its owner, its stored \<open>maxScore\<close> and
  its questions.
\<close>

record question =
  q_id :: string
  questionText :: string
  correctAnswer :: string
  questionNumber :: int

record quiz =
  quiz_userId :: string
  quiz_maxScore :: int
  quiz_questions :: "question list"

subsection \<open>The service: evaluation\<close>

text \<open>
  \<open>evaluateQuiz\<close> sends the questions with their correct answers and, for each
  position, \<open>userAnswers[i] || ""\<close>, and returns what the extraction finds in the
  reply. It is the \<open>evaluateQuiz\<close> that the submission route calls.
\<close>

definition evaluate_system_prompt :: string where
  "evaluate_system_prompt =
     ''\<newline>You are an expert evaluator. Score the quiz and return STRICT JSON:\<newline>\<newline>{\<newline>'' @
     ''  \"score\": number,\<newline>  \"maxScore\": number,\<newline>  \"evaluations\": [\<newline>    {\<newline>'' @
     ''      \"questionText\": \"\",\<newline>      \"correctAnswer\": \"\",\<newline>      \"userAnswer\": \"\",\<newline>'' @
     ''      \"isCorrect\": boolean,\<newline>      \"explanation\": \"\"\<newline>    }\<newline>  ],\<newline>'' @
     ''  \"improvements\": [\"\", \"\"]\<newline>}''"

definition evaluate_user_prompt ::
  "(jsval \<Rightarrow> string) \<Rightarrow> question list \<Rightarrow> jsval list \<Rightarrow> string" where
  "evaluate_user_prompt stringify qs userAnswers =
     ''Evaluate:\<newline>'' @
     stringify
       (JArr (map (\<lambda>(q, i).
                 JObj [(''questionText'', JStr (questionText q)),
                       (''correctAnswer'', JStr (correctAnswer q)),
                       (''userAnswer'',
                        js_or (if i < length userAnswers then userAnswers ! i else JUndefined)
                          (JStr ''''))])
               (zip qs [0 ..< length qs]))) @
     ''\<newline>Return ONLY JSON.''"

definition evaluateQuiz ::
  "'c backend \<Rightarrow> (string \<Rightarrow> jsval option) \<Rightarrow> (jsval \<Rightarrow> string) \<Rightarrow> 'c service
     \<Rightarrow> question list \<Rightarrow> jsval list \<Rightarrow> error + jsval" where
  "evaluateQuiz backend parse stringify svc qs userAnswers =
     (case askAI backend svc evaluate_system_prompt
             (evaluate_user_prompt stringify qs userAnswers) True of
        Inl e \<Rightarrow> Inl e
      | Inr raw \<Rightarrow> extractJSON parse raw)"

subsection \<open>The service: hints\<close>

text \<open>\<open>trim\<close> removes the white space and the line terminators at both ends.\<close>

definition trim :: "string \<Rightarrow> string" where
  "trim s = rev (dropWhile is_space (rev (dropWhile is_space s)))"

definition hint_system_prompt :: "string \<Rightarrow> string \<Rightarrow> string" where
  "hint_system_prompt subject grade =
     ''\<newline>You are a tutor. Give a hint but DO NOT reveal the answer.\<newline>Grade: '' @ grade @
     '', Subject: '' @ subject @ ''.''"

definition hint_user_prompt :: "string \<Rightarrow> string" where
  "hint_user_prompt questionText' =
     ''Question: '' @ questionText' @ ''\<newline>Give a short hint:''"

definition generateHint ::
  "'c backend \<Rightarrow> 'c service \<Rightarrow> string \<Rightarrow> string \<Rightarrow> string \<Rightarrow> error + string" where
  "generateHint backend svc questionText' subject grade =
     (case askAI backend svc (hint_system_prompt subject grade)
             (hint_user_prompt questionText') False of
        Inl e \<Rightarrow> Inl e
      | Inr raw \<Rightarrow> Inr (trim raw))"

subsection \<open>The generation route\<close>







subsection \<open>The submission route\<close>

text \<open>
  What the route hands to \<open>prisma.quizSubmission.create\<close>: the submission and, nested
  in it, one record for each question.
\<close>

record questionSubmission =
  questionId :: string
  userAnswer :: jsval
  isCorrect :: bool

record submission =
  quizId :: string
  userId :: string
  score :: jsval
  maxScore :: jsval
  percentage :: jsnum
  improvements :: jsval
  questionSubmissions :: "questionSubmission list"

text \<open>
  \<open>new Map((answers || []).map((item) => [item.questionId, item.answer || ""]))\<close>: the
  entries in the order of the request. \<open>answerMap.get(id)\<close> finds the value of the last
  entry with that key (a later entry replaces an earlier one), or \<open>undefined\<close>; the key
  that is looked up is always a string, which is equal to no key of another type.
\<close>

definition answer_entry :: "jsval \<Rightarrow> error + (jsval \<times> jsval)" where
  "answer_entry item =
     (case js_get item ''questionId'' of
        Inl e \<Rightarrow> Inl e
      | Inr k \<Rightarrow>
          (case js_get item ''answer'' of
             Inl e \<Rightarrow> Inl e
           | Inr a \<Rightarrow> Inr (k, js_or a (JStr ''''))))"

definition answerMap :: "jsval list \<Rightarrow> error + (jsval \<times> jsval) list" where
  "answerMap answers = map_throwing answer_entry answers"

definition map_get :: "(jsval \<times> jsval) list \<Rightarrow> string \<Rightarrow> jsval" where
  "map_get entries k =
     (case map_of (rev entries) (JStr k) of Some v \<Rightarrow> v | None \<Rightarrow> JUndefined)"

text \<open>
  The callback of \<open>orderedQuestions.map((question, index) => ...)\<close>, which reconciles
  the user's answer and the AI's judgement for one question.
\<close>

definition reconcile ::
  "(jsval \<times> jsval) list \<Rightarrow> jsval \<Rightarrow> question \<times> nat \<Rightarrow> error + questionSubmission" where
  "reconcile entries evaluationItems qi =
     (case qi of (question, index) \<Rightarrow>
      (case js_index evaluationItems index of
         Inl e \<Rightarrow> Inl e
       | Inr item \<Rightarrow>
           let evaluationItem = js_or item (JObj [])
           in (case js_get evaluationItem ''userAnswer'' of
                 Inl e \<Rightarrow> Inl e
               | Inr echoed \<Rightarrow>
                   (case js_get evaluationItem ''isCorrect'' of
                      Inl e \<Rightarrow> Inl e
                    | Inr judged \<Rightarrow>
                        let answer = js_coalesce (map_get entries (q_id question))
                                       (js_coalesce echoed (JStr ''''))
                        in Inr \<lparr> questionId = q_id question,
                                 userAnswer = answer,
                                 isCorrect =
                                   (case judged of
                                      JBool b \<Rightarrow> b
                                    | _ \<Rightarrow> answer = JStr (correctAnswer question)) \<rparr>))))"

text \<open>
  \<open>((evaluation.score || 0) / (evaluation.maxScore || quiz.maxScore)) * 100\<close>, from the
  two properties of the AI's response and the quiz's stored maximum.
\<close>

definition percentage_of :: "coercion \<Rightarrow> jsval \<Rightarrow> jsval \<Rightarrow> int \<Rightarrow> error + jsnum" where
  "percentage_of coerce sc ms stored =
     (case ToNumber coerce (js_or sc (JNum (Fin 0))) of
        Inl e \<Rightarrow> Inl e
      | Inr a \<Rightarrow>
          (case ToNumber coerce (js_or ms (JNum (Fin (of_int stored)))) of
             Inl e \<Rightarrow> Inl e
           | Inr b \<Rightarrow> Inr (js_mul (js_div a b) (Fin 100))))"

text \<open>
  The argument of \<open>prisma.quizSubmission.create\<close>, from the ordered questions, the
  entries of the answer map and the evaluation that the AI service returned.
\<close>

definition create_data ::
  "coercion \<Rightarrow> string \<Rightarrow> string \<Rightarrow> quiz \<Rightarrow> question list \<Rightarrow> (jsval \<times> jsval) list \<Rightarrow> jsval
     \<Rightarrow> error + submission" where
  "create_data coerce qzId usrId qz ordered entries evaluation =
     (let evaluationItems = js_or (js_get_opt evaluation ''evaluations'') (JArr []);
          improvs = js_or (js_get_opt evaluation ''improvements'') (JArr [])
      in (case js_get evaluation ''score'' of
            Inl e \<Rightarrow> Inl e
          | Inr sc \<Rightarrow>
              (case js_get evaluation ''maxScore'' of
                 Inl e \<Rightarrow> Inl e
               | Inr ms \<Rightarrow>
                   (case percentage_of coerce sc ms (quiz_maxScore qz) of
                      Inl e \<Rightarrow> Inl e
                    | Inr pct \<Rightarrow>
                        (case map_throwing (reconcile entries evaluationItems)
                                (zip ordered [0 ..< length ordered]) of
                           Inl e \<Rightarrow> Inl e
                         | Inr subs \<Rightarrow>
                             Inr \<lparr> quizId = qzId,
                                   userId = usrId,
                                   score = js_or sc (JNum (Fin 0)),
                                   maxScore = js_or ms (JNum (Fin (of_int (quiz_maxScore qz)))),
                                   percentage = pct,
                                   improvements = improvs,
                                   questionSubmissions = subs \<rparr>)))))"

text \<open>
  The body of the route from the sort of the questions to the creation of the
  submission. \<open>evaluate\<close> is the call of \<open>evaluateQuiz\<close> of the service, which gets the ordered
  questions and, for each of them, \<open>answerMap.get(question.id) || ""\<close>.
\<close>

definition orderedQuestions :: "quiz \<Rightarrow> question list" where
  "orderedQuestions qz = sort_key questionNumber (quiz_questions qz)"

definition submit_data ::
  "coercion \<Rightarrow> (question list \<Rightarrow> jsval list \<Rightarrow> error + jsval) \<Rightarrow> string \<Rightarrow> string \<Rightarrow> quiz
     \<Rightarrow> jsval list \<Rightarrow> error + submission" where
  "submit_data coerce evaluate qzId usrId qz answers =
     (case answerMap answers of
        Inl e \<Rightarrow> Inl e
      | Inr entries \<Rightarrow>
          (case evaluate (orderedQuestions qz)
                  (map (\<lambda>question. js_or (map_get entries (q_id question)) (JStr ''''))
                     (orderedQuestions qz)) of
             Inl e \<Rightarrow> Inl e
           | Inr evaluation \<Rightarrow>
               create_data coerce qzId usrId qz (orderedQuestions qz) entries evaluation))"

text \<open>
  The route itself: 404 for an unknown quiz, 403 for a quiz of another user, 500 with
  the message of whatever was thrown, and otherwise the created submission.
\<close>

datatype submit_response =
    NotFound404
  | Unauthorized403
  | Error500 error
  | Created submission

definition submit_route ::
  "coercion \<Rightarrow> (question list \<Rightarrow> jsval list \<Rightarrow> error + jsval) \<Rightarrow> (string \<Rightarrow> quiz option)
     \<Rightarrow> string \<Rightarrow> string \<Rightarrow> jsval list \<Rightarrow> submit_response" where
  "submit_route coerce evaluate findUnique usrId qzId answers =
     (case findUnique qzId of
        None \<Rightarrow> NotFound404
      | Some qz \<Rightarrow>
          if quiz_userId qz \<noteq> usrId then Unauthorized403
          else (case submit_data coerce evaluate qzId usrId qz answers of
                  Inl e \<Rightarrow> Error500 e
                | Inr d \<Rightarrow> Created d))"

subsection \<open>Notions of the specification\<close>

text \<open>
  \<open>item_at items i\<close> is the \<open>i\<close>-th evaluation item of the AI's \<open>evaluations\<close> value, and
  \<open>undefined\<close> when there is none.
\<close>

definition item_at :: "jsval \<Rightarrow> nat \<Rightarrow> jsval" where
  "item_at items i = (case js_index items i of Inl e \<Rightarrow> JUndefined | Inr v \<Rightarrow> v)"


text \<open>
  The percentage as the specification words it: the stored score divided by the
  AI-returned \<open>maxScore\<close> when the response has one, and by the quiz's stored
  \<open>maxScore\<close> otherwise, times 100.
\<close>

definition spec_percentage :: "coercion \<Rightarrow> jsval \<Rightarrow> jsval \<Rightarrow> int \<Rightarrow> error + jsnum" where
  "spec_percentage coerce sc ms stored =
     (case ToNumber coerce (js_or sc (JNum (Fin 0))) of
        Inl e \<Rightarrow> Inl e
      | Inr a \<Rightarrow>
          (case ToNumber coerce (if ms = JUndefined then JNum (Fin (of_int stored)) else ms) of
             Inl e \<Rightarrow> Inl e
           | Inr b \<Rightarrow> Inr (js_mul (js_div a b) (Fin 100))))"



text \<open>
  The upper-case form of a lower-case ASCII letter, and the case variants of a string
  written in lower case: every character is kept or replaced by its upper-case form.
\<close>

definition upper_char :: "char \<Rightarrow> char" where
  "upper_char c =
     (let n = of_char c :: nat in if 97 \<le> n \<and> n \<le> 122 then char_of (n - 32) else c)"

definition case_variant :: "string \<Rightarrow> string \<Rightarrow> bool" where
  "case_variant s t = list_all2 (\<lambda>c d. c = d \<or> c = upper_char d) s t"

subsection \<open>Examples\<close>

text \<open>A conversion under which every string, array and object becomes \<open>NaN\<close>.\<close>

definition coerce_NaN :: coercion where
  "coerce_NaN = (\<lambda>v. Inr NaN)"



text \<open>
  A quiz with the single question whose correct answer is \<open>Paris\<close>, an evaluation in
  which the AI gives no \<open>isCorrect\<close>, and the submission of one answer to that quiz.
\<close>

definition paris_quiz :: quiz where
  "paris_quiz =
     \<lparr> quiz_userId = ''u1'', quiz_maxScore = 10,
       quiz_questions = [\<lparr> q_id = ''q1'', questionText = ''Capital of France?'',
                            correctAnswer = ''Paris'', questionNumber = 1 \<rparr>] \<rparr>"

definition no_judgement :: jsval where
  "no_judgement =
     JObj [(''score'', JNum (Fin 10)), (''maxScore'', JNum (Fin 10)),
           (''evaluations'', JArr [JObj [(''explanation'', JStr ''ok'')]])]"

definition paris_submit :: "string \<Rightarrow> submit_response" where
  "paris_submit a =
     submit_route coerce_NaN (\<lambda>qs as. Inr no_judgement) (\<lambda>k. Some paris_quiz) ''u1'' ''z1''
       [JObj [(''questionId'', JStr ''q1''), (''answer'', JStr a)]]"

text \<open>An evaluation with a score of 7 and a \<open>maxScore\<close> of 0.\<close>

definition zero_max :: jsval where
  "zero_max = JObj [(''score'', JNum (Fin 7)), (''maxScore'', JNum (Fin 0))]"


text \<open>A client constructor that never throws: it keeps the library's name and the key.\<close>

definition plain_client :: "string \<Rightarrow> string option \<Rightarrow> error + (string \<times> string option)" where
  "plain_client name key = Inr (name, key)"

text \<open>The environment in which no variable is set.\<close>

definition unset_env :: env where
  "unset_env = \<lparr> AI_PROVIDER = None, GROQ_API_KEY = None, OPENAI_API_KEY = None,
                  OPENAI_MODEL = None, GEMINI_API_KEY = None, GEMINI_MODEL = None \<rparr>"

text \<open>
  A backend for examples: a chat completion answers \<open>{}\<close> in JSON mode and a padded
  hint otherwise, and the generation backend answers with the prompt it was given.
  \<open>groq_service\<close> and \<open>gemini_service\<close> are the services built in the environment
  with no variable set but the selector.
\<close>

definition echo_backend :: "(string \<times> string option) backend" where
  "echo_backend c r k =
     Inr (case r of
            ChatCompletionsCreate m s u f \<Rightarrow>
              (case f of Some Json_object \<Rightarrow> ''{}'' | None \<Rightarrow> ''  Think of France. \<newline>'')
          | GenerateContent m t \<Rightarrow> t)"

definition groq_service :: "(string \<times> string option) service" where
  "groq_service = \<lparr> provider = ''groq'', client = (''groq'', None),
                     model = ''llama-3.1-70b-versatile'' \<rparr>"

definition gemini_service :: "(string \<times> string option) service" where
  "gemini_service = \<lparr> provider = ''gemini'', client = (''gemini'', None),
                       model = ''gemini-pro'' \<rparr>"

text \<open>
  A parser for examples, which knows two documents: the object \<open>{"a":1}\<close> followed by
  a line break, and \<open>null\<close>. Two texts for the extraction: a reply that wraps that
  object in a fence tagged \<open>json\<close>, and a reply whose fence holds an object literal
  with an unquoted key, which is not JSON.
\<close>

definition sample_parse :: "string \<Rightarrow> jsval option" where
  "sample_parse =
     map_of [(''{\"a\":1}\<newline>'', JObj [(''a'', JNum (Fin 1))]), (''null'', JNull)]"

definition fenced_reply :: string where
  "fenced_reply = ''Sure! ```json\<newline>{\"a\":1}\<newline>```''"

definition unquoted_reply :: string where
  "unquoted_reply = ''Here you go: ```json\<newline>{a:1}\<newline>```''"

text \<open>A backend whose reply is always the text \<open>null\<close>.\<close>

definition null_backend :: "(string \<times> string option) backend" where
  "null_backend c r k = Inr ''null''"


section \<open>Properties\<close>

subsection \<open>Facts about the retry helper\<close>

lemma withRetry_success:
  "fn calls = Inr v \<Longrightarrow> withRetry fn retries delay (calls, sleeps) = (Inr v, (Suc calls, sleeps))"
  by (simp add: withRetry.simps)

lemma withRetry_exhausted:
  "fn calls = Inl err \<Longrightarrow> retries \<le> 0 \<Longrightarrow>
   withRetry fn retries delay (calls, sleeps) = (Inl err, (Suc calls, sleeps))"
  by (simp add: withRetry.simps)

lemma withRetry_again:
  "fn calls = Inl err \<Longrightarrow> 0 < retries \<Longrightarrow>
   withRetry fn retries delay (calls, sleeps) =
   withRetry fn (retries - 1) (delay * 2) (Suc calls, sleeps @ [delay])"
  by (simp add: withRetry.simps)

text \<open>
  Claim C4. With the default parameters every exception is followed by a sleep and a
  new attempt, up to three retries with sleeps of 700, 1400 and 2800 ms: the call
  returns the result of the first attempt among the four that succeeds, having slept
  the corresponding prefix of that schedule. In particular an operation that fails
  twice and then succeeds returns its result after sleeps of 700 and 1400 ms, and when
  all four attempts fail the error thrown by the operation itself (the one of the last
  attempt) is what the caller receives, unwrapped.
\<close>

theorem withRetry_default_schedule:
  fixes fn :: "nat \<Rightarrow> 'e + 'a"
  shows "(fn 0 = Inr v \<longrightarrow> withRetry_default fn = (Inr v, (1, [])))
       \<and> (fn 0 = Inl e0 \<and> fn 1 = Inr v \<longrightarrow> withRetry_default fn = (Inr v, (2, [700])))
       \<and> (fn 0 = Inl e0 \<and> fn 1 = Inl e1 \<and> fn 2 = Inr v \<longrightarrow>
            withRetry_default fn = (Inr v, (3, [700, 1400])))
       \<and> (fn 0 = Inl e0 \<and> fn 1 = Inl e1 \<and> fn 2 = Inl e2 \<and> fn 3 = Inr v \<longrightarrow>
            withRetry_default fn = (Inr v, (4, [700, 1400, 2800])))
       \<and> (fn 0 = Inl e0 \<and> fn 1 = Inl e1 \<and> fn 2 = Inl e2 \<and> fn 3 = Inl e3 \<longrightarrow>
            withRetry_default fn = (Inl e3, (4, [700, 1400, 2800])))"
  unfolding withRetry_default_def
  by (simp add: withRetry_success withRetry_exhausted withRetry_again
        numeral_2_eq_2 numeral_3_eq_3 eval_nat_numeral)

theorem withRetry_default_schedule_witness:
  "withRetry_default (\<lambda>k. if k < 0 then Inl (Backend ''429'') else Inr ''ok'')
     = (Inr ''ok'', (1, []))
   \<and> withRetry_default (\<lambda>k. if k < 1 then Inl (Backend ''429'') else Inr ''ok'')
     = (Inr ''ok'', (2, [700]))
   \<and> withRetry_default (\<lambda>k. if k < 2 then Inl (Backend ''429'') else Inr ''ok'')
     = (Inr ''ok'', (3, [700, 1400]))
   \<and> withRetry_default (\<lambda>k. if k < 3 then Inl (Backend ''429'') else Inr ''ok'')
     = (Inr ''ok'', (4, [700, 1400, 2800]))
   \<and> withRetry_default (\<lambda>k. if k < 3 then Inl (Backend ''429'') else Inl (Backend ''503'')
        :: error + string)
     = (Inl (Backend ''503''), (4, [700, 1400, 2800]))"
  using
    withRetry_default_schedule
      [of "\<lambda>k. if k < 0 then Inl (Backend ''429'') else Inr ''ok''" "''ok''"]
    withRetry_default_schedule
      [of "\<lambda>k. if k < 1 then Inl (Backend ''429'') else Inr ''ok''" "''ok''" "Backend ''429''"]
    withRetry_default_schedule
      [of "\<lambda>k. if k < 2 then Inl (Backend ''429'') else Inr ''ok''" "''ok''"
          "Backend ''429''" "Backend ''429''"]
    withRetry_default_schedule
      [of "\<lambda>k. if k < 3 then Inl (Backend ''429'') else Inr ''ok''" "''ok''"
          "Backend ''429''" "Backend ''429''" "Backend ''429''"]
    withRetry_default_schedule
      [of "\<lambda>k. if k < 3 then Inl (Backend ''429'') else Inl (Backend ''503'') :: error + string"
          _ "Backend ''429''" "Backend ''429''" "Backend ''429''" "Backend ''503''"]
  by simp

subsection \<open>Facts about the values and the reconciliation\<close>

lemma map_throwing_Inr:
  "map_throwing f xs = Inr ys \<Longrightarrow>
   length ys = length xs \<and> (\<forall>i < length xs. f (xs ! i) = Inr (ys ! i))"
proof (induction xs arbitrary: ys)
  case Nil
  then show ?case by simp
next
  case (Cons x xs)
  then obtain y ys' where y: "f x = Inr y" and ys': "map_throwing f xs = Inr ys'"
    and eq: "ys = y # ys'"
    by (auto split: sum.splits)
  from Cons.IH [OF ys'] y eq show ?case
    by (auto simp: nth_Cons split: nat.splits)
qed

lemma js_get_truthy: "truthy v \<Longrightarrow> js_get v k = Inr (js_get_opt v k)"
  by (cases v) (simp_all add: js_get_opt_def)

lemma js_get_opt_falsy: "\<not> truthy v \<Longrightarrow> js_get_opt v k = JUndefined"
  by (cases v) (simp_all add: js_get_opt_def)

lemma js_get_or_empty: "js_get (js_or v (JObj [])) k = Inr (js_get_opt v k)"
  by (cases "truthy v") (simp_all add: js_or_def js_get_truthy js_get_opt_falsy)

lemma js_index_items: "js_index (js_or evs (JArr [])) i = Inr (item_at evs i)"
  by (cases evs) (simp_all add: js_or_def item_at_def)

text \<open>
  The callback never throws: the items value is never \<open>null\<close> or \<open>undefined\<close> after
  \<open>|| []\<close>, and neither is the item after \<open>|| {}\<close>.
\<close>

lemma reconcile_eq:
  "reconcile entries (js_or evs (JArr [])) (q, i) =
   Inr \<lparr> questionId = q_id q,
         userAnswer = js_coalesce (map_get entries (q_id q))
                        (js_coalesce (js_get_opt (item_at evs i) ''userAnswer'') (JStr '''')),
         isCorrect =
           (case js_get_opt (item_at evs i) ''isCorrect'' of
              JBool b \<Rightarrow> b
            | _ \<Rightarrow> js_coalesce (map_get entries (q_id q))
                        (js_coalesce (js_get_opt (item_at evs i) ''userAnswer'') (JStr ''''))
                   = JStr (correctAnswer q)) \<rparr>"
  by (simp add: reconcile_def js_index_items js_get_or_empty Let_def)

lemma create_data_subs:
  assumes "create_data coerce qzId usrId qz ordered entries evaluation = Inr d"
    and "i < length ordered"
  shows "length (questionSubmissions d) = length ordered"
    and "reconcile entries (js_or (js_get_opt evaluation ''evaluations'') (JArr []))
           (ordered ! i, i) = Inr (questionSubmissions d ! i)"
proof -
  from assms(1) obtain subs where
    m: "map_throwing (reconcile entries (js_or (js_get_opt evaluation ''evaluations'') (JArr [])))
          (zip ordered [0 ..< length ordered]) = Inr subs"
    and d: "questionSubmissions d = subs"
    by (auto simp: create_data_def Let_def split: sum.splits)
  from map_throwing_Inr [OF m] d show "length (questionSubmissions d) = length ordered"
    by simp
  from map_throwing_Inr [OF m] d assms(2)
  show "reconcile entries (js_or (js_get_opt evaluation ''evaluations'') (JArr []))
           (ordered ! i, i) = Inr (questionSubmissions d ! i)"
    by (auto simp: nth_zip)
qed

lemmas route_defs =
  submit_route_def submit_data_def create_data_def answerMap_def answer_entry_def
  orderedQuestions_def js_get_opt_def js_or_def percentage_of_def reconcile_def map_get_def
  js_coalesce_def nullish_def Let_def

text \<open>
  Claim C1. In a created submission, the record of the question at position \<open>i\<close> has
  as \<open>isCorrect\<close> the AI's value when the \<open>i\<close>-th evaluation item has a boolean
  \<open>isCorrect\<close>; in every other case (no such property, a value that is not a boolean,
  no \<open>i\<close>-th item) it is the equality of the stored user answer with the string
  \<open>correctAnswer\<close> of the question. For the question with correct answer \<open>Paris\<close> and
  an AI response without \<open>isCorrect\<close>, the answer \<open>Paris\<close> is stored as correct and
  the answer \<open>paris\<close> as incorrect.
\<close>

theorem isCorrect_reconciled:
  "(create_data coerce qzId usrId qz ordered entries evaluation = Inr d \<longrightarrow>
    i < length ordered \<longrightarrow>
      i < length (questionSubmissions d) \<and>
      isCorrect (questionSubmissions d ! i) =
        (case js_get_opt (item_at (js_get_opt evaluation ''evaluations'') i) ''isCorrect'' of
           JBool b \<Rightarrow> b
         | _ \<Rightarrow> userAnswer (questionSubmissions d ! i) = JStr (correctAnswer (ordered ! i))))
   \<and> (case paris_submit ''Paris'' of
         Created s \<Rightarrow> map isCorrect (questionSubmissions s) = [True] | _ \<Rightarrow> False)
   \<and> (case paris_submit ''paris'' of
         Created s \<Rightarrow> map isCorrect (questionSubmissions s) = [False] | _ \<Rightarrow> False)"
proof (intro conjI impI)
  assume c: "create_data coerce qzId usrId qz ordered entries evaluation = Inr d"
    and i: "i < length ordered"
  from create_data_subs(1) [OF c i] i show "i < length (questionSubmissions d)"
    by simp
  define item where "item = item_at (js_get_opt evaluation ''evaluations'') i"
  define answer where
    "answer = js_coalesce (map_get entries (q_id (ordered ! i)))
                (js_coalesce (js_get_opt item ''userAnswer'') (JStr ''''))"
  from create_data_subs(2) [OF c i]
  have r: "questionSubmissions d ! i =
        \<lparr> questionId = q_id (ordered ! i), userAnswer = answer,
          isCorrect = (case js_get_opt item ''isCorrect'' of
                         JBool b \<Rightarrow> b
                       | _ \<Rightarrow> answer = JStr (correctAnswer (ordered ! i))) \<rparr>"
    unfolding reconcile_eq item_def answer_def by simp
  have u: "userAnswer (questionSubmissions d ! i) = answer"
    by (simp add: r)
  have j: "isCorrect (questionSubmissions d ! i) =
           (case js_get_opt item ''isCorrect'' of
              JBool b \<Rightarrow> b
            | _ \<Rightarrow> answer = JStr (correctAnswer (ordered ! i)))"
    by (simp add: r)
  show "isCorrect (questionSubmissions d ! i) =
        (case js_get_opt (item_at (js_get_opt evaluation ''evaluations'') i) ''isCorrect'' of
           JBool b \<Rightarrow> b
         | _ \<Rightarrow> userAnswer (questionSubmissions d ! i) = JStr (correctAnswer (ordered ! i)))"
    unfolding j u item_def by (rule refl)
next
  show "case paris_submit ''Paris'' of
         Created s \<Rightarrow> map isCorrect (questionSubmissions s) = [True] | _ \<Rightarrow> False"
    by (simp add: paris_submit_def paris_quiz_def no_judgement_def route_defs)
next
  show "case paris_submit ''paris'' of
         Created s \<Rightarrow> map isCorrect (questionSubmissions s) = [False] | _ \<Rightarrow> False"
    by (simp add: paris_submit_def paris_quiz_def no_judgement_def route_defs)
qed

theorem isCorrect_reconciled_witness:
  "\<exists>d. create_data coerce_NaN ''z1'' ''u1'' paris_quiz (orderedQuestions paris_quiz)
          [(JStr ''q1'', JStr ''paris'')]
          (JObj [(''score'', JNum (Fin 10)),
                 (''evaluations'', JArr [JObj [(''isCorrect'', JBool True)]])]) = Inr d
       \<and> 0 < length (orderedQuestions paris_quiz)
       \<and> 0 < length (questionSubmissions d)
       \<and> userAnswer (questionSubmissions d ! 0) = JStr ''paris''
       \<and> isCorrect (questionSubmissions d ! 0) = True"
proof -
  let ?ev = "JObj [(''score'', JNum (Fin 10)),
                   (''evaluations'', JArr [JObj [(''isCorrect'', JBool True)]])]"
  obtain d where d: "create_data coerce_NaN ''z1'' ''u1'' paris_quiz
      (orderedQuestions paris_quiz) [(JStr ''q1'', JStr ''paris'')] ?ev = Inr d"
    and u: "userAnswer (questionSubmissions d ! 0) = JStr ''paris''"
    by (simp add: paris_quiz_def route_defs)
  have l: "0 < length (orderedQuestions paris_quiz)"
    by (simp add: paris_quiz_def orderedQuestions_def)
  from isCorrect_reconciled [of coerce_NaN "''z1''" "''u1''" paris_quiz
      "orderedQuestions paris_quiz" "[(JStr ''q1'', JStr ''paris'')]" ?ev d 0] d l
  have "0 < length (questionSubmissions d) \<and> isCorrect (questionSubmissions d ! 0) = True"
    by (simp add: js_get_opt_def item_at_def)
  with d l u show ?thesis by blast
qed

subsection \<open>The stored answer\<close>









subsection \<open>The percentage\<close>

lemma seven_of_ten: "js_mul (js_div (Fin 7) (Fin 10)) (Fin 100) = Fin 70"
  by code_simp

lemma seven_of_zero: "js_mul (js_div (Fin 7) (Fin 0)) (Fin 100) = PInf"
  by code_simp

lemma create_data_fields:
  assumes "create_data coerce qzId usrId qz ordered entries evaluation = Inr d"
  shows "score d = js_or (js_get_opt evaluation ''score'') (JNum (Fin 0))"
    and "maxScore d =
           js_or (js_get_opt evaluation ''maxScore'') (JNum (Fin (of_int (quiz_maxScore qz))))"
    and "percentage_of coerce (js_get_opt evaluation ''score'')
           (js_get_opt evaluation ''maxScore'') (quiz_maxScore qz) = Inr (percentage d)"
  using assms
  by (auto simp: create_data_def Let_def js_get_opt_def split: sum.splits)

lemma percentage_of_Inr:
  "percentage_of coerce sc ms stored = Inr p \<Longrightarrow>
   \<exists>a b. ToNumber coerce (js_or sc (JNum (Fin 0))) = Inr a \<and>
         ToNumber coerce (js_or ms (JNum (Fin (of_int stored)))) = Inr b \<and>
         p = js_mul (js_div a b) (Fin 100)"
  by (auto simp: percentage_of_def split: sum.splits)

lemma create_data_ignores_percentage:
  "create_data coerce qzId usrId qz ordered entries (JObj ((''percentage'', p) # kvs)) =
   create_data coerce qzId usrId qz ordered entries (JObj kvs)"
  by (simp add: create_data_def js_get_opt_def)

text \<open>
  Claim C6, as the specification states it, fails for a response whose \<open>maxScore\<close> is
  present but falsy: with a score of 7, an AI-returned \<open>maxScore\<close> of 0 and a stored
  \<open>maxScore\<close> of 10, the code divides by the stored 10 and stores 70, where the
  division by the AI-returned value would give \<open>Infinity\<close>.
\<close>

theorem percentage_maxScore_present_counterexample:
  "js_get zero_max ''maxScore'' = Inr (JNum (Fin 0))
   \<and> create_data coerce_NaN ''z1'' ''u1'' paris_quiz (orderedQuestions paris_quiz) [] zero_max
       = Inr \<lparr> quizId = ''z1'', userId = ''u1'', score = JNum (Fin 7),
               maxScore = JNum (Fin 10), percentage = Fin 70, improvements = JArr [],
               questionSubmissions =
                 [\<lparr> questionId = ''q1'', userAnswer = JStr '''', isCorrect = False \<rparr>] \<rparr>
   \<and> spec_percentage coerce_NaN (JNum (Fin 7)) (JNum (Fin 0)) 10 = Inr PInf"
  by (simp add: zero_max_def paris_quiz_def route_defs spec_percentage_def
        seven_of_ten seven_of_zero)

text \<open>
  Claim C6, amended. The stored percentage is computed locally: it is the stored score
  divided by the stored \<open>maxScore\<close>, times 100, in double arithmetic, where the stored
  score is the AI-returned score when that is truthy and 0 otherwise, and the stored
  \<open>maxScore\<close> is the AI-returned \<open>maxScore\<close> when that is truthy (present and not 0,
  \<open>null\<close>, \<open>false\<close>, \<open>NaN\<close> or the empty string) and the quiz's stored \<open>maxScore\<close>
  otherwise. A percentage embedded in the AI response changes nothing. For a score of
  7 and a \<open>maxScore\<close> of 10, AI-returned or stored, the percentage is exactly 70.
\<close>

theorem percentage_computed_locally:
  "(create_data coerce qzId usrId qz ordered entries evaluation = Inr d \<longrightarrow>
      score d = (if truthy (js_get_opt evaluation ''score'')
                 then js_get_opt evaluation ''score'' else JNum (Fin 0))
    \<and> maxScore d = (if truthy (js_get_opt evaluation ''maxScore'')
                    then js_get_opt evaluation ''maxScore''
                    else JNum (Fin (of_int (quiz_maxScore qz))))
    \<and> (\<exists>a b. ToNumber coerce (score d) = Inr a \<and> ToNumber coerce (maxScore d) = Inr b \<and>
              percentage d = js_mul (js_div a b) (Fin 100)))
   \<and> create_data coerce qzId usrId qz ordered entries (JObj ((''percentage'', p) # kvs)) =
       create_data coerce qzId usrId qz ordered entries (JObj kvs)
   \<and> percentage_of coerce (JNum (Fin 7)) (JNum (Fin 10)) stored = Inr (Fin 70)
   \<and> percentage_of coerce (JNum (Fin 7)) JUndefined 10 = Inr (Fin 70)"
proof (intro conjI impI)
  assume c: "create_data coerce qzId usrId qz ordered entries evaluation = Inr d"
  note f = create_data_fields [OF c]
  show "score d = (if truthy (js_get_opt evaluation ''score'')
                   then js_get_opt evaluation ''score'' else JNum (Fin 0))"
    by (simp add: f(1) js_or_def)
  show "maxScore d = (if truthy (js_get_opt evaluation ''maxScore'')
                      then js_get_opt evaluation ''maxScore''
                      else JNum (Fin (of_int (quiz_maxScore qz))))"
    by (simp add: f(2) js_or_def)
  from percentage_of_Inr [OF f(3)]
  show "\<exists>a b. ToNumber coerce (score d) = Inr a \<and> ToNumber coerce (maxScore d) = Inr b \<and>
              percentage d = js_mul (js_div a b) (Fin 100)"
    by (simp add: f(1,2))
next
  show "create_data coerce qzId usrId qz ordered entries (JObj ((''percentage'', p) # kvs)) =
        create_data coerce qzId usrId qz ordered entries (JObj kvs)"
    by (rule create_data_ignores_percentage)
next
  show "percentage_of coerce (JNum (Fin 7)) (JNum (Fin 10)) stored = Inr (Fin 70)"
    by (simp add: percentage_of_def js_or_def seven_of_ten)
next
  show "percentage_of coerce (JNum (Fin 7)) JUndefined 10 = Inr (Fin 70)"
    by (simp add: percentage_of_def js_or_def seven_of_ten)
qed

theorem percentage_computed_locally_witness:
  "\<exists>d. create_data coerce_NaN ''z1'' ''u1'' paris_quiz (orderedQuestions paris_quiz) []
          (JObj [(''score'', JNum (Fin 7)), (''percentage'', JNum (Fin 99))]) = Inr d
       \<and> score d = JNum (Fin 7) \<and> maxScore d = JNum (Fin 10) \<and> percentage d = Fin 70"
proof -
  let ?ev = "JObj [(''score'', JNum (Fin 7)), (''percentage'', JNum (Fin 99))]"
  obtain d where d: "create_data coerce_NaN ''z1'' ''u1'' paris_quiz
      (orderedQuestions paris_quiz) [] ?ev = Inr d"
    by (simp add: paris_quiz_def route_defs)
  note t = percentage_computed_locally [of coerce_NaN "''z1''" "''u1''" paris_quiz
      "orderedQuestions paris_quiz" "[]" ?ev d, THEN conjunct1, rule_format, OF d]
  from t have s: "score d = JNum (Fin 7)" and m: "maxScore d = JNum (Fin 10)"
    by (simp_all add: js_get_opt_def paris_quiz_def)
  from t have p: "\<exists>a b. ToNumber coerce_NaN (score d) = Inr a \<and>
                  ToNumber coerce_NaN (maxScore d) = Inr b \<and>
                  percentage d = js_mul (js_div a b) (Fin 100)"
    by blast
  from p have "percentage d = Fin 70"
    unfolding s m by (auto simp: seven_of_ten)
  with d s m show ?thesis by blast
qed

subsection \<open>The provider selector\<close>


lemma AIService_provider:
  "AIService newClient e = Inr svc \<Longrightarrow>
   provider svc = toLowerCase (env_or (AI_PROVIDER e) ''groq'') \<and>
   provider svc \<in> {''groq'', ''openai'', ''gemini''}"
  by (auto simp: AIService_def Let_def split: if_splits sum.splits)

lemma AIService_selector:
  "toLowerCase (env_or (AI_PROVIDER e) ''groq'') = toLowerCase (env_or (AI_PROVIDER e') ''groq'') \<Longrightarrow>
   GROQ_API_KEY e = GROQ_API_KEY e' \<Longrightarrow> OPENAI_API_KEY e = OPENAI_API_KEY e' \<Longrightarrow>
   OPENAI_MODEL e = OPENAI_MODEL e' \<Longrightarrow> GEMINI_API_KEY e = GEMINI_API_KEY e' \<Longrightarrow>
   GEMINI_MODEL e = GEMINI_MODEL e' \<Longrightarrow>
   AIService newClient e = AIService newClient e'"
  by (simp only: AIService_def)

lemma lower_groq: "toLowerCase ''groq'' = ''groq''"
  unfolding toLowerCase_def by code_simp






subsection \<open>Case variants of the selector\<close>

lemma provider_letters:
  "list_all (\<lambda>d. lower_char d = d \<and> lower_char (upper_char d) = d) ''groqpenaim''"
  by code_simp

lemma lower_case_variant:
  "list_all2 (\<lambda>c d. c = d \<or> c = upper_char d) s t \<Longrightarrow>
   list_all (\<lambda>d. lower_char d = d \<and> lower_char (upper_char d) = d) t \<Longrightarrow>
   map lower_char s = t"
  by (induction s t rule: list_all2_induct) auto

lemma lower_provider_variant:
  assumes "case_variant s t" and "t \<in> {''groq'', ''openai'', ''gemini''}"
  shows "toLowerCase s = t"
proof -
  from assms(2) have "set t \<subseteq> set ''groqpenaim''"
    by auto
  with provider_letters
  have "list_all (\<lambda>d. lower_char d = d \<and> lower_char (upper_char d) = d) t"
    unfolding list_all_iff by blast
  with assms(1) show ?thesis
    unfolding toLowerCase_def case_variant_def by (rule lower_case_variant)
qed

text \<open>
  Claim C10. The selector is compared in lower case: for every case variant \<open>s\<close> of
  one of the three recognised values \<open>t\<close>, the construction with the selector \<open>s\<close>
  is the construction with the selector \<open>t\<close>, so that the process starts in the same
  way; the service, when the client library is constructed, has the provider \<open>t\<close>,
  and it is constructed whenever the client libraries do not throw.
\<close>

theorem selector_case_insensitive:
  assumes "case_variant s t" and "t \<in> {''groq'', ''openai'', ''gemini''}"
  shows "toLowerCase s = t
       \<and> AIService newClient (e\<lparr>AI_PROVIDER := Some s\<rparr>) =
           AIService newClient (e\<lparr>AI_PROVIDER := Some t\<rparr>)
       \<and> start newClient (e\<lparr>AI_PROVIDER := Some s\<rparr>) =
           start newClient (e\<lparr>AI_PROVIDER := Some t\<rparr>)
       \<and> (\<forall>svc. AIService newClient (e\<lparr>AI_PROVIDER := Some s\<rparr>) = Inr svc \<longrightarrow>
                 provider svc = t)
       \<and> ((\<forall>name key. \<exists>c. newClient name key = Inr c) \<longrightarrow>
            (\<exists>svc. AIService newClient (e\<lparr>AI_PROVIDER := Some s\<rparr>) = Inr svc \<and>
                   provider svc = t))"
proof -
  have low: "toLowerCase s = t"
    using assms by (rule lower_provider_variant)
  from assms(2) have ne: "t \<noteq> []" by auto
  from assms(1) ne have ne': "s \<noteq> []"
    by (auto simp: case_variant_def)
  from assms(2) have "case_variant t t"
    by (auto simp: case_variant_def list_all2_same)
  then have low': "toLowerCase t = t"
    using assms(2) by (rule lower_provider_variant)
  have sel: "toLowerCase (env_or (Some s) ''groq'') = t"
            "toLowerCase (env_or (Some t) ''groq'') = t"
    using ne ne' low low' by (simp_all add: env_or_def)
  have same: "AIService newClient (e\<lparr>AI_PROVIDER := Some s\<rparr>) =
              AIService newClient (e\<lparr>AI_PROVIDER := Some t\<rparr>)"
    by (rule AIService_selector) (simp_all add: sel)
  have prov: "provider svc = t"
    if "AIService newClient (e\<lparr>AI_PROVIDER := Some s\<rparr>) = Inr svc" for svc
    using AIService_provider [OF that] by (simp add: sel)
  have built: "\<exists>svc. AIService newClient (e\<lparr>AI_PROVIDER := Some s\<rparr>) = Inr svc \<and>
                     provider svc = t"
    if total: "\<forall>name key. \<exists>c. newClient name key = Inr c"
  proof -
    obtain c1 c2 c3 where
      "newClient ''groq'' (GROQ_API_KEY e) = Inr c1"
      "newClient ''openai'' (OPENAI_API_KEY e) = Inr c2"
      "newClient ''gemini'' (GEMINI_API_KEY e) = Inr c3"
      using total by metis
    with assms(2) show ?thesis
      by (auto simp: AIService_def Let_def sel)
  qed
  from low same prov built show ?thesis
    by (simp add: start_def)
qed

theorem selector_case_insensitive_witness:
  "case_variant ''GROQ'' ''groq'' \<and> case_variant ''OpenAI'' ''openai''
   \<and> case_variant ''Gemini'' ''gemini''
   \<and> start plain_client (unset_env\<lparr>AI_PROVIDER := Some ''GROQ''\<rparr>) =
       Listening \<lparr> provider = ''groq'', client = (''groq'', None),
                   model = ''llama-3.1-70b-versatile'' \<rparr>
   \<and> toLowerCase ''OpenAI'' = ''openai''
   \<and> toLowerCase ''Gemini'' = ''gemini''"
proof -
  have v: "case_variant ''GROQ'' ''groq''" "case_variant ''OpenAI'' ''openai''"
    "case_variant ''Gemini'' ''gemini''"
    unfolding case_variant_def by code_simp+
  have g: "start plain_client (unset_env\<lparr>AI_PROVIDER := Some ''groq''\<rparr>) =
       Listening \<lparr> provider = ''groq'', client = (''groq'', None),
                   model = ''llama-3.1-70b-versatile'' \<rparr>"
    by (simp add: start_def AIService_def Let_def unset_env_def env_or_def lower_groq
          plain_client_def)
  from selector_case_insensitive [OF v(1), of plain_client unset_env] g
  have 1: "start plain_client (unset_env\<lparr>AI_PROVIDER := Some ''GROQ''\<rparr>) =
       Listening \<lparr> provider = ''groq'', client = (''groq'', None),
                   model = ''llama-3.1-70b-versatile'' \<rparr>"
    by simp
  from selector_case_insensitive [OF v(2), of plain_client unset_env]
  have 2: "toLowerCase ''OpenAI'' = ''openai''" by simp
  from selector_case_insensitive [OF v(3), of plain_client unset_env]
  have 3: "toLowerCase ''Gemini'' = ''gemini''" by simp
  from v 1 2 3 show ?thesis by blast
qed

subsection \<open>Structured output and hints\<close>

lemma askAI_chat:
  "provider svc = ''groq'' \<or> provider svc = ''openai'' \<Longrightarrow>
   askAI backend svc system user wantsJSON =
   fst (withRetry_default
          (backend (client svc)
             (ChatCompletionsCreate (model svc) system user
                (if wantsJSON then Some Json_object else None))))"
proof -
  assume "provider svc = ''groq'' \<or> provider svc = ''openai''"
  then have "askAI_attempt backend svc system user wantsJSON =
             backend (client svc)
               (ChatCompletionsCreate (model svc) system user
                  (if wantsJSON then Some Json_object else None))"
    by (intro ext) (simp add: askAI_attempt_def)
  then show ?thesis by (simp add: askAI_def)
qed

lemma askAI_gemini:
  "provider svc = ''gemini'' \<Longrightarrow>
   askAI backend svc system user wantsJSON =
   fst (withRetry_default
          (backend (client svc)
             (GenerateContent (model svc)
                (system @ ''\<newline>\<newline>'' @ user @
                 (if wantsJSON then ''\<newline>Return strictly valid JSON only.'' else '''')))))"
proof -
  assume "provider svc = ''gemini''"
  then have "askAI_attempt backend svc system user wantsJSON =
             backend (client svc)
               (GenerateContent (model svc)
                  (system @ ''\<newline>\<newline>'' @ user @
                   (if wantsJSON then ''\<newline>Return strictly valid JSON only.'' else '''')))"
    by (intro ext) (simp add: askAI_attempt_def)
  then show ?thesis by (simp add: askAI_def)
qed

lemma split_trailing: "xs = rev (dropWhile P (rev xs)) @ rev (takeWhile P (rev xs))"
  by (metis rev_append rev_rev_ident takeWhile_dropWhile_id)

lemma list_all_takeWhile: "list_all P (takeWhile P xs)"
  by (induction xs) auto

lemma trim_decomposition:
  "\<exists>pre post. raw = pre @ trim raw @ post \<and> list_all is_space pre \<and> list_all is_space post"
proof -
  let ?rest = "dropWhile is_space raw"
  have "raw = takeWhile is_space raw @ ?rest"
    by simp
  also have "?rest = trim raw @ rev (takeWhile is_space (rev ?rest))"
    unfolding trim_def by (rule split_trailing)
  finally have "raw = takeWhile is_space raw @ trim raw @ rev (takeWhile is_space (rev ?rest))" .
  moreover have "list_all is_space (takeWhile is_space raw)"
    by (rule list_all_takeWhile)
  moreover have "list_all is_space (rev (takeWhile is_space (rev ?rest)))"
    unfolding list_all_rev by (rule list_all_takeWhile)
  ultimately show ?thesis by blast
qed

lemma trim_ends:
  assumes ne: "trim raw \<noteq> []"
  shows "\<not> is_space (hd (trim raw)) \<and> \<not> is_space (last (trim raw))"
proof -
  let ?rest = "dropWhile is_space raw"
  let ?t = "dropWhile is_space (rev ?rest)"
  from ne have t: "?t \<noteq> []" by (simp add: trim_def)
  then have "\<not> is_space (hd ?t)" by (rule hd_dropWhile)
  then have l: "\<not> is_space (last (trim raw))"
    using t by (simp add: trim_def last_rev)
  have r: "?rest \<noteq> []"
  proof
    assume "?rest = []"
    then have "?t = []" by (simp only: rev.simps dropWhile.simps)
    with t show False by (rule notE)
  qed
  then have h: "\<not> is_space (hd ?rest)" by (rule hd_dropWhile)
  have "?rest = trim raw @ rev (takeWhile is_space (rev ?rest))"
    unfolding trim_def by (rule split_trailing)
  then have "hd ?rest = hd (trim raw)"
    using ne by (metis hd_append2)
  with h l show ?thesis by simp
qed

text \<open>
  Claim C8. With the structured-output flag set, every attempt of \<open>askAI\<close> on one of
  the two chat-completion backends is a \<open>chat.completions.create\<close> with
  \<open>response_format\<close> \<open>json_object\<close> and the two prompts as they are, and every attempt
  on the generation backend is a \<open>generateContent\<close> whose text is the two prompts
  followed by the instruction to return strictly valid JSON. \<open>generateHint\<close> calls
  the backend without \<open>response_format\<close>, or without the instruction, parses nothing,
  and returns the backend's text without the white space at its two ends.
\<close>

theorem structured_output_and_hint:
  "(provider svc = ''groq'' \<or> provider svc = ''openai'' \<longrightarrow>
      askAI backend svc system user True =
        fst (withRetry_default
               (backend (client svc)
                  (ChatCompletionsCreate (model svc) system user (Some Json_object))))
    \<and> generateHint backend svc q subject grade =
        (case fst (withRetry_default
                     (backend (client svc)
                        (ChatCompletionsCreate (model svc) (hint_system_prompt subject grade)
                           (hint_user_prompt q) None))) of
           Inl e \<Rightarrow> Inl e
         | Inr raw \<Rightarrow> Inr (trim raw)))
   \<and> (provider svc = ''gemini'' \<longrightarrow>
      askAI backend svc system user True =
        fst (withRetry_default
               (backend (client svc)
                  (GenerateContent (model svc)
                     (system @ ''\<newline>\<newline>'' @ user @ ''\<newline>Return strictly valid JSON only.''))))
    \<and> generateHint backend svc q subject grade =
        (case fst (withRetry_default
                     (backend (client svc)
                        (GenerateContent (model svc)
                           (hint_system_prompt subject grade @ ''\<newline>\<newline>'' @
                            hint_user_prompt q)))) of
           Inl e \<Rightarrow> Inl e
         | Inr raw \<Rightarrow> Inr (trim raw)))
   \<and> (\<exists>pre post. raw = pre @ trim raw @ post \<and> list_all is_space pre \<and> list_all is_space post)
   \<and> (trim raw \<noteq> [] \<longrightarrow> \<not> is_space (hd (trim raw)) \<and> \<not> is_space (last (trim raw)))"
proof -
  have chat: "askAI backend svc system user True =
        fst (withRetry_default
               (backend (client svc)
                  (ChatCompletionsCreate (model svc) system user (Some Json_object))))"
    and chat_hint: "generateHint backend svc q subject grade =
        (case fst (withRetry_default
                     (backend (client svc)
                        (ChatCompletionsCreate (model svc) (hint_system_prompt subject grade)
                           (hint_user_prompt q) None))) of
           Inl e \<Rightarrow> Inl e
         | Inr raw \<Rightarrow> Inr (trim raw))"
    if "provider svc = ''groq'' \<or> provider svc = ''openai''"
    using that by (simp_all add: generateHint_def askAI_chat)
  have gen: "askAI backend svc system user True =
        fst (withRetry_default
               (backend (client svc)
                  (GenerateContent (model svc)
                     (system @ ''\<newline>\<newline>'' @ user @ ''\<newline>Return strictly valid JSON only.''))))"
    and gen_hint: "generateHint backend svc q subject grade =
        (case fst (withRetry_default
                     (backend (client svc)
                        (GenerateContent (model svc)
                           (hint_system_prompt subject grade @ ''\<newline>\<newline>'' @
                            hint_user_prompt q)))) of
           Inl e \<Rightarrow> Inl e
         | Inr raw \<Rightarrow> Inr (trim raw))"
    if "provider svc = ''gemini''"
    using that by (simp_all add: generateHint_def askAI_gemini)
  from chat chat_hint gen gen_hint trim_decomposition [of raw] trim_ends [of raw]
  show ?thesis by blast
qed

lemma trim_hint: "trim ''  Think of France. \<newline>'' = ''Think of France.''"
  by (simp add: trim_def is_space_def)

theorem structured_output_and_hint_witness:
  "askAI echo_backend groq_service ''S'' ''U'' True = Inr ''{}''
   \<and> generateHint echo_backend groq_service ''Capital of France?'' ''Geography'' ''5''
       = Inr ''Think of France.''
   \<and> askAI echo_backend gemini_service ''S'' ''U'' True
       = Inr ''S\<newline>\<newline>U\<newline>Return strictly valid JSON only.''
   \<and> generateHint echo_backend gemini_service ''Q'' ''Geography'' ''5''
       = Inr (trim (hint_system_prompt ''Geography'' ''5'' @ ''\<newline>\<newline>'' @ hint_user_prompt ''Q''))
   \<and> trim ''  Think of France. \<newline>'' \<noteq> []
   \<and> \<not> is_space (hd (trim ''  Think of France. \<newline>''))
   \<and> \<not> is_space (last (trim ''  Think of France. \<newline>''))"
proof -
  have g: "provider groq_service = ''groq'' \<or> provider groq_service = ''openai''"
    by (simp add: groq_service_def)
  have m: "provider gemini_service = ''gemini''"
    by (simp add: gemini_service_def)
  have ne: "trim ''  Think of France. \<newline>'' \<noteq> []"
    by (simp add: trim_hint)
  note t1 = structured_output_and_hint
    [of groq_service echo_backend "''S''" "''U''" "''Capital of France?''" "''Geography''" "''5''"
        "''  Think of France. \<newline>''"]
  note t2 = structured_output_and_hint
    [of gemini_service echo_backend "''S''" "''U''" "''Q''" "''Geography''" "''5''" "''''"]
  from t1 g have 1: "askAI echo_backend groq_service ''S'' ''U'' True = Inr ''{}''"
    and 2: "generateHint echo_backend groq_service ''Capital of France?'' ''Geography'' ''5''
            = Inr ''Think of France.''"
    by (simp_all add: withRetry_default_def withRetry_success echo_backend_def trim_hint)
  from t1 ne have 3: "\<not> is_space (hd (trim ''  Think of France. \<newline>''))"
    and 4: "\<not> is_space (last (trim ''  Think of France. \<newline>''))"
    by blast+
  from t2 m have 5: "askAI echo_backend gemini_service ''S'' ''U'' True
       = Inr ''S\<newline>\<newline>U\<newline>Return strictly valid JSON only.''"
    and 6: "generateHint echo_backend gemini_service ''Q'' ''Geography'' ''5''
       = Inr (trim (hint_system_prompt ''Geography'' ''5'' @ ''\<newline>\<newline>'' @ hint_user_prompt ''Q''))"
    by (simp_all add: withRetry_default_def withRetry_success echo_backend_def)
  from 1 2 3 4 5 6 ne show ?thesis by blast
qed

subsection \<open>Extraction\<close>

text \<open>
  A run of white space before the group has no influence on whether a closing fence
  is found, which is why the greedy \<open>\s*\<close> never has to give white space back.
\<close>

lemma until_fence_white_space:
  "(until_fence (dropWhile is_space t) = None) = (until_fence t = None)"
  by (induction t) (auto simp: is_space_def)

lemma match_json_fence_fenced_reply: "match_json_fence fenced_reply = Some ''{\"a\":1}\<newline>''"
  by (simp add: fenced_reply_def is_space_def)

lemma match_json_fence_unquoted_reply: "match_json_fence unquoted_reply = Some ''{a:1}\<newline>''"
  by (simp add: unquoted_reply_def is_space_def)

text \<open>
  What the extraction does. A text that parses is returned parsed. Otherwise the
  content of the first fence tagged \<open>json\<close> is parsed, if there is one, and otherwise
  the content of the first fence of any kind; the error that names the invalid JSON is
  raised only when the text neither parses nor has a closed fence.
\<close>

lemma extractJSON_attempts:
  "(parse text = Some v \<longrightarrow> extractJSON parse text = Inr v)
   \<and> (parse text = None \<and> match_json_fence text = Some cap \<and> parse cap = Some v \<longrightarrow>
        extractJSON parse text = Inr v)
   \<and> (parse text = None \<and> match_json_fence text = None \<and> match_fence text = Some cap \<and>
        parse cap = Some v \<longrightarrow> extractJSON parse text = Inr v)
   \<and> (parse text = None \<and> match_json_fence text = None \<and> match_fence text = None \<longrightarrow>
        extractJSON parse text = Inl NotValidJSON)
   \<and> (parse fenced_reply = None \<and> parse ''{\"a\":1}\<newline>'' = Some v \<longrightarrow>
        extractJSON parse fenced_reply = Inr v)"
  by (simp add: extractJSON_def match_json_fence_fenced_reply)

text \<open>
  Claim C3 asks for the error \<open>AI did not return valid JSON\<close> whenever the three
  attempts fail, and for the third attempt when the second fails. The code parses
  the content of a fence outside any \<open>try\<close>: when the text does not parse and the
  content of its first fence tagged \<open>json\<close> does not parse either, the \<open>SyntaxError\<close>
  of \<open>JSON.parse\<close> leaves the function, no further attempt is made and the error of
  the claim is not raised. This is so for the reply with the unquoted key.
\<close>

theorem extractJSON_invalid_fence:
  "(parse text = None \<and> match_json_fence text = Some cap \<and> parse cap = None \<longrightarrow>
      extractJSON parse text = Inl SyntaxError)
   \<and> (parse unquoted_reply = None \<and> parse ''{a:1}\<newline>'' = None \<longrightarrow>
        extractJSON parse unquoted_reply = Inl SyntaxError \<and>
        extractJSON parse unquoted_reply \<noteq> Inl NotValidJSON)"
  by (simp add: extractJSON_def match_json_fence_unquoted_reply)

theorem extractJSON_invalid_fence_witness:
  "sample_parse unquoted_reply = None \<and> sample_parse ''{a:1}\<newline>'' = None
   \<and> match_json_fence unquoted_reply = Some ''{a:1}\<newline>''
   \<and> extractJSON sample_parse unquoted_reply = Inl SyntaxError
   \<and> extractJSON sample_parse unquoted_reply \<noteq> Inl NotValidJSON"
proof -
  have p: "sample_parse unquoted_reply = None" "sample_parse ''{a:1}\<newline>'' = None"
    by (simp_all add: sample_parse_def unquoted_reply_def)
  from extractJSON_invalid_fence [of sample_parse unquoted_reply "''{a:1}\<newline>''"] p
  show ?thesis
    by (simp add: match_json_fence_unquoted_reply)
qed

subsection \<open>Quiz generation\<close>

text \<open>
  What the check of the parsed response does on a response other than \<open>null\<close>: a
  missing or falsy \<open>questions\<close> and a \<open>questions\<close> of length 0 are the failure with no
  questions, and everything else is returned as it is, whatever the questions hold.
\<close>

lemma parsed_questions_cases:
  "(parsed \<noteq> JNull \<and> parsed \<noteq> JUndefined \<longrightarrow>
      parsed_questions parsed =
        (if \<not> truthy (js_get_opt parsed ''questions'') \<or>
            is_zero (js_length (js_get_opt parsed ''questions''))
         then Inl NoQuestions else Inr (js_get_opt parsed ''questions'')))
   \<and> (map_of kvs ''questions'' = None \<longrightarrow> parsed_questions (JObj kvs) = Inl NoQuestions)
   \<and> (map_of kvs ''questions'' = Some (JArr []) \<longrightarrow>
        parsed_questions (JObj kvs) = Inl NoQuestions)
   \<and> (map_of kvs ''questions'' = Some (JArr (q # qs)) \<longrightarrow>
        parsed_questions (JObj kvs) = Inr (JArr (q # qs)))"
  by (cases parsed) (simp_all add: parsed_questions_def js_get_opt_def is_zero_def)

lemma generateQuiz_never_defaults:
  "generateQuiz backend parse stringify svc grade subject numQuestions history = Inr qs \<Longrightarrow>
   \<exists>raw parsed. askAI backend svc (quiz_system_prompt numQuestions grade subject)
                   (quiz_user_prompt stringify history) True = Inr raw \<and>
                 extractJSON parse raw = Inr parsed \<and>
                 js_get parsed ''questions'' = Inr qs \<and> truthy qs"
  by (auto simp: generateQuiz_def parsed_questions_def split: sum.splits if_splits)

text \<open>
  Claim C5 asks for the failure \<open>No quiz questions generated\<close> whenever the response
  has no \<open>questions\<close>. The response \<open>null\<close>, which the extraction returns for the text
  \<open>null\<close>, has none; there the code reads a property of \<open>null\<close>, and what is thrown
  is the \<open>TypeError\<close> of that access, not the failure of the claim.
\<close>

theorem generateQuiz_null_response:
  "parsed_questions JNull = Inl TypeError
   \<and> (askAI backend svc (quiz_system_prompt numQuestions grade subject)
         (quiz_user_prompt stringify history) True = Inr raw \<and>
       extractJSON parse raw = Inr JNull \<longrightarrow>
       generateQuiz backend parse stringify svc grade subject numQuestions history
         = Inl TypeError)"
  by (simp add: generateQuiz_def parsed_questions_def)

theorem generateQuiz_null_response_witness:
  "askAI null_backend groq_service (quiz_system_prompt ''5'' ''5'' ''Mathematics'')
     (quiz_user_prompt (\<lambda>v. ''[]'') []) True = Inr ''null''
   \<and> extractJSON sample_parse ''null'' = Inr JNull
   \<and> generateQuiz null_backend sample_parse (\<lambda>v. ''[]'') groq_service
       ''5'' ''Mathematics'' ''5'' [] = Inl TypeError"
proof -
  have a: "askAI null_backend groq_service (quiz_system_prompt ''5'' ''5'' ''Mathematics'')
     (quiz_user_prompt (\<lambda>v. ''[]'') []) True = Inr ''null''"
    by (simp add: askAI_def withRetry_default_def withRetry_success askAI_attempt_def
          groq_service_def null_backend_def)
  have x: "extractJSON sample_parse ''null'' = Inr JNull"
    by (simp add: extractJSON_def sample_parse_def)
  from generateQuiz_null_response
         [of null_backend groq_service "''5''" "''5''" "''Mathematics''" "\<lambda>v. ''[]''" "[]"
             "''null''" sample_parse] a x
  show ?thesis by simp
qed

subsection \<open>Rounding\<close>











subsection \<open>The divisor of the percentage\<close>







end
